theory Spec2Isabelle
  imports Complex_Main "HOL-Library.Multiset"
begin

section \<open>Data model (domain/player/player.go, domain/player/attributes.go)\<close>

text \<open>
  Conventions of the embedding.
  \<^item> Go's \<open>int\<close> is \<open>int\<close>: every quantity of the program lives on the 0-100 scale
    (or is a small count), where 64-bit arithmetic does not wrap.
  \<^item> Go's \<open>float64\<close> is \<open>real\<close>: the comparisons, clamps and products of the program are
    those of the real numbers; rounding, infinities and NaN are outside the model.
  \<^item> \<open>type Position string\<close>, \<open>type Status string\<close>, \<open>type Formation string\<close> and
    \<open>type PlayerID string\<close> are strings, and their named constants are string literals,
    so that a \<open>switch\<close> keeps its \<open>default\<close> branch.
  \<^item> \<open>time.Time\<close> is read through \<open>Year()\<close> and \<open>YearDay()\<close> only; a value of it is the
    pair of these two readings, and \<open>time.Now()\<close> is an explicit argument \<open>now\<close>.
  \<^item> Only the fields that the functions below read or write are kept in the records.
\<close>

type_synonym PlayerID = string
type_synonym Position = string
type_synonym Status = string

abbreviation PositionGK :: Position where "PositionGK \<equiv> ''GK''"
abbreviation PositionDEF :: Position where "PositionDEF \<equiv> ''DEF''"
abbreviation PositionMID :: Position where "PositionMID \<equiv> ''MID''"
abbreviation PositionFWD :: Position where "PositionFWD \<equiv> ''FWD''"

abbreviation StatusAvailable :: Status where "StatusAvailable \<equiv> ''available''"
abbreviation StatusInjured :: Status where "StatusInjured \<equiv> ''injured''"
abbreviation StatusSuspended :: Status where "StatusSuspended \<equiv> ''suspended''"
abbreviation StatusOnLoan :: Status where "StatusOnLoan \<equiv> ''on_loan''"
abbreviation StatusRetired :: Status where "StatusRetired \<equiv> ''retired''"

record Time =
  Year :: int
  YearDay :: int

record Attributes =
  Quality :: int
  Keeping :: int
  Tackling :: int
  Passing :: int
  Shooting :: int
  Heading :: int
  Speed :: int
  Stamina :: int
  Perception :: int
  BallControl :: int
  Consistency :: int
  ImportantMatches :: int
  Potential :: int
  Ambition :: int
  Professionalism :: int

record CareerStats =
  TotalMatches :: int
  TotalGoals :: int
  TotalAssists :: int
  TotalYellowCards :: int
  TotalRedCards :: int

record Player =
  ID :: PlayerID
  FirstName :: string
  LastName :: string
  Nickname :: string
  DateOfBirth :: Time
  Position :: Position
  Status :: Status
  Fitness :: real
  Morale :: real
  Form :: real
  Attributes :: Attributes
  CareerStats :: CareerStats


definition Age :: "Time \<Rightarrow> Player \<Rightarrow> int" where
  "Age now p =
     (let years = Year now - Year (DateOfBirth p)
      in if YearDay now < YearDay (DateOfBirth p) then years - 1 else years)"

definition FullName :: "Player \<Rightarrow> string" where
  "FullName p = (if Nickname p \<noteq> [] then Nickname p else FirstName p @ '' '' @ LastName p)"

definition IsAvailable :: "Player \<Rightarrow> bool" where
  "IsAvailable p \<longleftrightarrow> Status p = StatusAvailable \<and> Fitness p \<ge> 70"

definition CanPlayPosition :: "Player \<Rightarrow> Position \<Rightarrow> bool" where
  "CanPlayPosition p pos =
     (if Position p = pos then True
      else if Position p = PositionDEF
        then pos = PositionDEF \<or> (pos = PositionMID \<and> Passing (Attributes p) > 60)
      else if Position p = PositionMID
        then pos = PositionMID \<or> pos = PositionDEF \<or> pos = PositionFWD
      else if Position p = PositionFWD
        then pos = PositionFWD \<or> (pos = PositionMID \<and> Passing (Attributes p) > 60)
      else False)"






definition NewDefaultAttributes :: "Position \<Rightarrow> Attributes" where
  "NewDefaultAttributes position =
     (let base = \<lparr>Quality = 65, Keeping = 0, Tackling = 0, Passing = 0, Shooting = 0,
                   Heading = 0, Speed = 0, Stamina = 0, Perception = 0, BallControl = 0,
                   Consistency = 70, ImportantMatches = 70, Potential = 75, Ambition = 70,
                   Professionalism = 70\<rparr>
      in if position = PositionGK then
           base\<lparr>Keeping := 70, Tackling := 20, Passing := 50, Shooting := 10, Heading := 30,
                Speed := 40, Stamina := 70, Perception := 65, BallControl := 30\<rparr>
         else if position = PositionDEF then
           base\<lparr>Keeping := 20, Tackling := 70, Passing := 55, Shooting := 35, Heading := 65,
                Speed := 65, Stamina := 75, Perception := 60, BallControl := 50\<rparr>
         else if position = PositionMID then
           base\<lparr>Keeping := 20, Tackling := 55, Passing := 70, Shooting := 55, Heading := 50,
                Speed := 70, Stamina := 80, Perception := 70, BallControl := 70\<rparr>
         else if position = PositionFWD then
           base\<lparr>Keeping := 20, Tackling := 30, Passing := 60, Shooting := 75, Heading := 60,
                Speed := 75, Stamina := 70, Perception := 65, BallControl := 70\<rparr>
         else base)"

definition NewPlayer :: "PlayerID \<Rightarrow> string \<Rightarrow> string \<Rightarrow> Position \<Rightarrow> Time \<Rightarrow> Player" where
  "NewPlayer pid firstName lastName position dateOfBirth =
     \<lparr>ID = pid, FirstName = firstName, LastName = lastName, Nickname = [],
      DateOfBirth = dateOfBirth, Position = position,
      Status = StatusAvailable, Fitness = 100, Morale = 75, Form = 70,
      Attributes = NewDefaultAttributes position,
      CareerStats = \<lparr>TotalMatches = 0, TotalGoals = 0, TotalAssists = 0,
                      TotalYellowCards = 0, TotalRedCards = 0\<rparr>\<rparr>"

section \<open>Fitness engine (domain/player/fitness.go)\<close>

record FitnessManager =
  fatigueRate :: real
  recoveryRate :: real
  injuryThreshold :: real




definition CalculateInjuryRisk :: "FitnessManager \<Rightarrow> Time \<Rightarrow> Player \<Rightarrow> real" where
  "CalculateInjuryRisk fm now player =
     (let risk = 0;
          risk = (if Fitness player < injuryThreshold fm
                  then risk + (injuryThreshold fm - Fitness player) / 100 else risk);
          age = Age now player;
          risk = (if age > 30 then risk + real_of_int (age - 30) * 0.01 else risk)
      in min risk 0.5)"



section \<open>Development engine (domain/player/development.go)\<close>

text \<open>
  The generator of \<open>math/rand\<close> belongs to Go's library, not to the repository. It is a
  parameter of the model: a type \<open>'g\<close> of generator states with the three operations
  the engine calls. Each draw returns its value and the next state. The library promises
  \<open>Float64\<close> in \<open>[0,1)\<close> and \<open>Intn n\<close> in \<open>[0,n)\<close>; \<open>rand_contract\<close> says so.
\<close>

record 'g math_rand =
  NewSource :: "int \<Rightarrow> 'g"
  Float64 :: "'g \<Rightarrow> real \<times> 'g"
  Intn :: "int \<Rightarrow> 'g \<Rightarrow> int \<times> 'g"


record 'g DevelopmentManager =
  rand :: 'g

definition NewDevelopmentManager :: "'g math_rand \<Rightarrow> 'g DevelopmentManager" where
  "NewDevelopmentManager R = \<lparr>rand = NewSource R 42\<rparr>"

type_synonym TrainingType = string

abbreviation TrainingTechnical :: TrainingType where "TrainingTechnical \<equiv> ''technical''"
abbreviation TrainingPhysical :: TrainingType where "TrainingPhysical \<equiv> ''physical''"
abbreviation TrainingTactical :: TrainingType where "TrainingTactical \<equiv> ''tactical''"
abbreviation TrainingSetPieces :: TrainingType where "TrainingSetPieces \<equiv> ''set_pieces''"

record TrainingResult =
  AttributeChanges :: "string \<rightharpoonup> int"
  FitnessChange :: real
  MoraleChange :: real

definition calculateImprovementChance :: "Time \<Rightarrow> Player \<Rightarrow> real" where
  "calculateImprovementChance now player =
     (let age = Age now player;
          baseChance = (if age < 21 then 0.8 else if age < 25 then 0.6
                        else if age < 28 then 0.4 else if age < 32 then 0.2 else 0.05);
          potentialMod = real_of_int (Potential (Attributes player)) / 100;
          baseChance = baseChance * potentialMod;
          profMod = real_of_int (Professionalism (Attributes player)) / 100;
          baseChance = baseChance * (0.5 + 0.5 * profMod);
          moraleMod = Morale player / 100;
          baseChance = baseChance * (0.8 + 0.2 * moraleMod)
      in baseChance)"

definition getAttributeValue :: "Player \<Rightarrow> string \<Rightarrow> int" where
  "getAttributeValue player attribute =
     (if attribute = ''Keeping'' then Keeping (Attributes player)
      else if attribute = ''Tackling'' then Tackling (Attributes player)
      else if attribute = ''Passing'' then Passing (Attributes player)
      else if attribute = ''Shooting'' then Shooting (Attributes player)
      else if attribute = ''Heading'' then Heading (Attributes player)
      else if attribute = ''Speed'' then Speed (Attributes player)
      else if attribute = ''Stamina'' then Stamina (Attributes player)
      else if attribute = ''Perception'' then Perception (Attributes player)
      else if attribute = ''BallControl'' then BallControl (Attributes player)
      else 50)"

text \<open>\<open>int(math.Min(math.Max(float64(v), 0), 100))\<close> on an integer \<open>v\<close>.\<close>

definition clamp100 :: "int \<Rightarrow> int" where
  "clamp100 v = min (max v 0) 100"

definition applyAttributeChange :: "Player \<Rightarrow> string \<Rightarrow> int \<Rightarrow> Player" where
  "applyAttributeChange player attribute change =
     (let a = Attributes player in
      if attribute = ''Keeping''
        then player\<lparr>Attributes := a\<lparr>Keeping := clamp100 (Keeping a + change)\<rparr>\<rparr>
      else if attribute = ''Tackling''
        then player\<lparr>Attributes := a\<lparr>Tackling := clamp100 (Tackling a + change)\<rparr>\<rparr>
      else if attribute = ''Passing''
        then player\<lparr>Attributes := a\<lparr>Passing := clamp100 (Passing a + change)\<rparr>\<rparr>
      else if attribute = ''Shooting''
        then player\<lparr>Attributes := a\<lparr>Shooting := clamp100 (Shooting a + change)\<rparr>\<rparr>
      else if attribute = ''Heading''
        then player\<lparr>Attributes := a\<lparr>Heading := clamp100 (Heading a + change)\<rparr>\<rparr>
      else if attribute = ''Speed''
        then player\<lparr>Attributes := a\<lparr>Speed := clamp100 (Speed a + change)\<rparr>\<rparr>
      else if attribute = ''Stamina''
        then player\<lparr>Attributes := a\<lparr>Stamina := clamp100 (Stamina a + change)\<rparr>\<rparr>
      else if attribute = ''Perception''
        then player\<lparr>Attributes := a\<lparr>Perception := clamp100 (Perception a + change)\<rparr>\<rparr>
      else if attribute = ''BallControl''
        then player\<lparr>Attributes := a\<lparr>BallControl := clamp100 (BallControl a + change)\<rparr>\<rparr>
      else player)"

definition calculateImprovement :: "'g math_rand \<Rightarrow> 'g \<Rightarrow> Player \<Rightarrow> string \<Rightarrow> int \<times> 'g" where
  "calculateImprovement R g player attribute =
     (let current = getAttributeValue player attribute in
      if current \<ge> 95 then (0, g)
      else if current \<ge> 90
        then (let (u, g') = Float64 R g in (if u < 0.1 then 1 else 0, g'))
      else if current \<ge> 80
        then (let (u, g') = Float64 R g in (if u < 0.3 then 1 else 0, g'))
      else (let (k, g') = Intn R 2 g in (1 + k, g')))"

text \<open>
  The state a training function works on: the generator, the player and the
  \<open>AttributeChanges\<close> map of the result under construction.
\<close>

type_synonym 'g training_state = "'g \<times> Player \<times> (string \<rightharpoonup> int)"

text \<open>
  The body the four attribute loops share: one draw against the threshold \<open>c\<close>, then
  \<open>calculateImprovement\<close>, and the change recorded and applied when it is positive.
\<close>

definition train_attr :: "'g math_rand \<Rightarrow> real \<Rightarrow> 'g training_state \<Rightarrow> string \<Rightarrow> 'g training_state" where
  "train_attr R c s attr =
     (case s of (g, player, changes) \<Rightarrow>
        let (u, g1) = Float64 R g in
        if u < c then
          (let (improvement, g2) = calculateImprovement R g1 player attr in
           if improvement > 0
             then (g2, applyAttributeChange player attr improvement, changes(attr \<mapsto> improvement))
             else (g2, player, changes))
        else (g1, player, changes))"

definition trainTechnical :: "'g math_rand \<Rightarrow> real \<Rightarrow> 'g training_state \<Rightarrow> 'g training_state" where
  "trainTechnical R chance s = foldl (train_attr R chance) s [''Passing'', ''BallControl'', ''Shooting'']"

definition trainPhysical :: "'g math_rand \<Rightarrow> real \<Rightarrow> 'g training_state \<Rightarrow> 'g training_state" where
  "trainPhysical R chance s = foldl (train_attr R (chance * 0.8)) s [''Speed'', ''Stamina'', ''Heading'']"

definition trainTactical :: "'g math_rand \<Rightarrow> real \<Rightarrow> 'g training_state \<Rightarrow> 'g training_state" where
  "trainTactical R chance s = foldl (train_attr R chance) s [''Perception'', ''Tackling'']"

definition trainSetPieces :: "'g math_rand \<Rightarrow> real \<Rightarrow> 'g training_state \<Rightarrow> 'g training_state" where
  "trainSetPieces R chance s =
     (case s of (g, player, changes) \<Rightarrow>
        if Position player = PositionGK then
          (let (u, g1) = Float64 R g in
           if u < chance then
             (let (improvement, g2) = calculateImprovement R g1 player ''Keeping'' in
              if improvement > 0
                then (g2,
                      player\<lparr>Attributes := (Attributes player)
                        \<lparr>Keeping := Keeping (Attributes player) + improvement\<rparr>\<rparr>,
                      changes(''Keeping'' \<mapsto> improvement))
                else (g2, player, changes))
           else (g1, player, changes))
        else foldl (train_attr R (chance * 0.7)) s [''Heading'', ''Shooting''])"

definition allAttrs :: "string list" where
  "allAttrs = [''Keeping'', ''Tackling'', ''Passing'', ''Shooting'', ''Heading'',
               ''Speed'', ''Stamina'', ''Perception'', ''BallControl'']"

text \<open>
  The loop of \<open>trainGeneral\<close>, \<open>n\<close> iterations left: a draw picks the attribute (with
  replacement), then the shared body runs at half the chance. The index is in range by
  the library's contract for \<open>Intn\<close>.
\<close>

fun trainGeneral_loop :: "'g math_rand \<Rightarrow> real \<Rightarrow> nat \<Rightarrow> 'g training_state \<Rightarrow> 'g training_state" where
  "trainGeneral_loop R chance 0 s = s"
| "trainGeneral_loop R chance (Suc n) s =
     (case s of (g, player, changes) \<Rightarrow>
        let (j, g1) = Intn R (int (length allAttrs)) g;
            attr = allAttrs ! nat j
        in trainGeneral_loop R chance n (train_attr R (chance * 0.5) (g1, player, changes) attr))"

definition trainGeneral :: "'g math_rand \<Rightarrow> real \<Rightarrow> 'g training_state \<Rightarrow> 'g training_state" where
  "trainGeneral R chance s =
     (case s of (g, player, changes) \<Rightarrow>
        let (k, g1) = Intn R 2 g;
            numAttrs = 2 + k
        in trainGeneral_loop R chance (nat numAttrs) (g1, player, changes))"

text \<open>
  \<open>ProcessTraining\<close> mutates the manager's generator and the player and returns the
  result; the model returns all three.
\<close>

definition ProcessTraining ::
  "'g math_rand \<Rightarrow> Time \<Rightarrow> 'g DevelopmentManager \<Rightarrow> Player \<Rightarrow> TrainingType \<Rightarrow> real
     \<Rightarrow> 'g DevelopmentManager \<times> Player \<times> TrainingResult" where
  "ProcessTraining R now dm player trainingType intensity =
     (let improvementChance = calculateImprovementChance now player;
          s = (rand dm, player, Map.empty);
          (g', player', changes) =
            (if trainingType = TrainingTechnical then trainTechnical R improvementChance s
             else if trainingType = TrainingPhysical then trainPhysical R improvementChance s
             else if trainingType = TrainingTactical then trainTactical R improvementChance s
             else if trainingType = TrainingSetPieces then trainSetPieces R improvementChance s
             else trainGeneral R improvementChance s);
          result = \<lparr>AttributeChanges = changes, FitnessChange = - 5 * intensity,
                    MoraleChange = (if intensity < 0.7 then 2 else if intensity > 0.9 then - 3 else 0)\<rparr>
      in (dm\<lparr>rand := g'\<rparr>, player', result))"




section \<open>Runs of the development engine\<close>







section \<open>Formations and lineups (domain/team/formation.go)\<close>

type_synonym Formation = string

abbreviation Formation442 :: Formation where "Formation442 \<equiv> ''4-4-2''"
abbreviation Formation433 :: Formation where "Formation433 \<equiv> ''4-3-3''"
abbreviation Formation451 :: Formation where "Formation451 \<equiv> ''4-5-1''"
abbreviation Formation352 :: Formation where "Formation352 \<equiv> ''3-5-2''"
abbreviation Formation532 :: Formation where "Formation532 \<equiv> ''5-3-2''"
abbreviation Formation4231 :: Formation where "Formation4231 \<equiv> ''4-2-3-1''"
abbreviation Formation4312 :: Formation where "Formation4312 \<equiv> ''4-3-1-2''"
abbreviation FormationDefault :: Formation where "FormationDefault \<equiv> Formation442"

text \<open>
  \<open>FormationRequirements\<close> is a Go map from positions to counts. It is an association
  list in the order the literal is written; reading a key the map does not hold gives 0.
  A \<open>range\<close> over a Go map visits the keys in an order the language leaves open, so each
  function with such a loop takes the order as an argument \<open>ks\<close>, and
  \<open>range_order\<close> says that \<open>ks\<close> lists every key once.
\<close>

type_synonym FormationRequirements = "(Position \<times> int) list"

definition requirement :: "FormationRequirements \<Rightarrow> Position \<Rightarrow> int" where
  "requirement reqs pos = (case map_of reqs pos of Some n \<Rightarrow> n | None \<Rightarrow> 0)"

definition range_order :: "FormationRequirements \<Rightarrow> Position list \<Rightarrow> bool" where
  "range_order reqs ks \<longleftrightarrow> distinct ks \<and> set ks = set (map fst reqs)"

definition position_counts :: "int \<Rightarrow> int \<Rightarrow> int \<Rightarrow> int \<Rightarrow> FormationRequirements" where
  "position_counts gk df md fw =
     [(PositionGK, gk), (PositionDEF, df), (PositionMID, md), (PositionFWD, fw)]"

definition GetPositionRequirements :: "Formation \<Rightarrow> FormationRequirements" where
  "GetPositionRequirements f =
     (if f = Formation442 then position_counts 1 4 4 2
      else if f = Formation433 then position_counts 1 4 3 3
      else if f = Formation451 then position_counts 1 4 5 1
      else if f = Formation352 then position_counts 1 3 5 2
      else if f = Formation532 then position_counts 1 5 3 2
      else if f = Formation4231 then position_counts 1 4 5 1
      else if f = Formation4312 then position_counts 1 4 4 2
      else position_counts 1 4 4 2)"

definition IsValid :: "Formation \<Rightarrow> bool" where
  "IsValid f \<longleftrightarrow> f \<in> {Formation442, Formation433, Formation451, Formation352,
                        Formation532, Formation4231, Formation4312}"

section \<open>Errors and panics (domain/common/errors.go)\<close>

text \<open>
  An \<open>error\<close> value is a \<open>DomainError\<close> with its code and message, or one of the two
  messages \<open>validateFormationPositions\<close> formats with \<open>fmt.Errorf\<close>; those keep the values
  that are formatted: \<open>CannotPlay name pos\<close> is "player name cannot play pos", and
  \<open>FormationRequires n pos k\<close> is "formation requires n pos, got k". A Go function either
  returns or panics.
\<close>

datatype error =
  DomainError string string
  | CannotPlay string Position
  | FormationRequires int Position int

definition ErrPlayerNotFound :: error where
  "ErrPlayerNotFound = DomainError ''PLAYER_NOT_FOUND'' ''Player not found''"

definition ErrInvalidFormation :: error where
  "ErrInvalidFormation = DomainError ''INVALID_FORMATION'' ''Invalid formation''"

definition ErrInsufficientPlayers :: error where
  "ErrInsufficientPlayers = DomainError ''INSUFFICIENT_PLAYERS'' ''Not enough players for lineup''"

definition ErrPlayerUnavailable :: error where
  "ErrPlayerUnavailable = DomainError ''PLAYER_UNAVAILABLE'' ''Player is unavailable''"

datatype panic = IndexOutOfRange | NilPointerDereference

datatype 'a outcome = Returns 'a | Panics panic

section \<open>Team (domain/team/team.go)\<close>

record Team =
  Players :: "Player list"
  Captain :: "PlayerID option"
  ViceCaptain :: "PlayerID option"
  Formation :: Formation

record Lineup =
  Formation :: Formation
  Starters :: "PlayerID list"
  Positions :: "Position list"
  Substitutes :: "PlayerID list"
  Captain :: PlayerID

definition GetPlayer :: "Team \<Rightarrow> PlayerID \<Rightarrow> error + Player" where
  "GetPlayer t playerID =
     (case find (\<lambda>p. ID p = playerID) (Players t) of
        Some p \<Rightarrow> Inr p
      | None \<Rightarrow> Inl ErrPlayerNotFound)"

definition GetAvailablePlayers :: "Team \<Rightarrow> Player list" where
  "GetAvailablePlayers t = filter IsAvailable (Players t)"

definition GetPlayersByPosition :: "Team \<Rightarrow> Position \<Rightarrow> Player list" where
  "GetPlayersByPosition t pos = filter (\<lambda>p. CanPlayPosition p pos) (Players t)"

text \<open>The first loop of \<open>ValidateLineup\<close>: the first starter that is missing or unavailable.\<close>

fun starters_available :: "Team \<Rightarrow> PlayerID list \<Rightarrow> error option" where
  "starters_available t [] = None"
| "starters_available t (playerID # rest) =
     (case GetPlayer t playerID of
        Inl err \<Rightarrow> Some err
      | Inr player \<Rightarrow>
          if \<not> IsAvailable player then Some ErrPlayerUnavailable
          else starters_available t rest)"

text \<open>
  The first loop of \<open>validateFormationPositions\<close>, at index \<open>i\<close> with the starters from
  \<open>i\<close> on still to visit. \<open>lineup.Positions[i]\<close> panics past the end of \<open>Positions\<close>; the
  error of \<open>GetPlayer\<close> is dropped, so a missing player is a nil pointer that
  \<open>CanPlayPosition\<close> dereferences.
\<close>

fun count_positions ::
  "Team \<Rightarrow> Position list \<Rightarrow> nat \<Rightarrow> PlayerID list \<Rightarrow> (Position \<Rightarrow> int)
     \<Rightarrow> (error + (Position \<Rightarrow> int)) outcome" where
  "count_positions t positions i [] positionCount = Returns (Inr positionCount)"
| "count_positions t positions i (playerID # rest) positionCount =
     (if i \<ge> length positions then Panics IndexOutOfRange
      else
        let assignedPos = positions ! i in
        case GetPlayer t playerID of
          Inl err \<Rightarrow> Panics NilPointerDereference
        | Inr p \<Rightarrow>
            if \<not> CanPlayPosition p assignedPos
              then Returns (Inl (CannotPlay (FullName p) assignedPos))
              else count_positions t positions (Suc i) rest
                     (positionCount(assignedPos := positionCount assignedPos + 1)))"

text \<open>The second loop: the first key, in the order of the \<open>range\<close>, whose count is off.\<close>

fun requirements_met ::
  "FormationRequirements \<Rightarrow> (Position \<Rightarrow> int) \<Rightarrow> Position list \<Rightarrow> error option" where
  "requirements_met requiredPositions positionCount [] = None"
| "requirements_met requiredPositions positionCount (pos # ks) =
     (let required = requirement requiredPositions pos in
      if positionCount pos \<noteq> required
        then Some (FormationRequires required pos (positionCount pos))
        else requirements_met requiredPositions positionCount ks)"

definition validateFormationPositions :: "Position list \<Rightarrow> Team \<Rightarrow> Lineup \<Rightarrow> error option outcome" where
  "validateFormationPositions ks t lineup =
     (let requiredPositions = GetPositionRequirements (Lineup.Formation lineup) in
      case count_positions t (Positions lineup) 0 (Starters lineup) (\<lambda>_. 0) of
        Panics c \<Rightarrow> Panics c
      | Returns (Inl err) \<Rightarrow> Returns (Some err)
      | Returns (Inr positionCount) \<Rightarrow>
          Returns (requirements_met requiredPositions positionCount ks))"

definition ValidateLineup :: "Position list \<Rightarrow> Team \<Rightarrow> Lineup \<Rightarrow> error option outcome" where
  "ValidateLineup ks t lineup =
     (if length (Starters lineup) \<noteq> 11 then Returns (Some ErrInsufficientPlayers)
      else
        case starters_available t (Starters lineup) of
          Some err \<Rightarrow> Returns (Some err)
        | None \<Rightarrow>
            if \<not> IsValid (Lineup.Formation lineup) then Returns (Some ErrInvalidFormation)
            else validateFormationPositions ks t lineup)"

text \<open>
  \<open>GetBestEleven\<close>: for each position, in the order \<open>ks\<close> of the \<open>range\<close> over the
  requirements, the first \<open>count\<close> available players that can play it. No player is
  marked as used between positions.
\<close>

definition GetBestEleven :: "Position list \<Rightarrow> Team \<Rightarrow> Player list" where
  "GetBestEleven ks t =
     (let available = GetAvailablePlayers t in
      if length available < 11 then available
      else
        let requirements = GetPositionRequirements (Team.Formation t) in
        foldl (\<lambda>bestEleven pos.
                 let count = requirement requirements pos;
                     candidates = filter (\<lambda>p. CanPlayPosition p pos) available
                 in bestEleven @ take (nat count) candidates)
              [] ks)"

section \<open>Squad manager (domain/team/squad.go)\<close>













section \<open>Two sorts that meet the contract of \<open>sort.Slice\<close>\<close>





section \<open>Concrete inputs\<close>

text \<open>
  Values on which the functions are run: two clock readings, players made by \<open>NewPlayer\<close>
  (born in 2000, so 25 years old at \<open>today\<close>), and a small congruential generator that
  meets \<open>rand_contract\<close>.
\<close>

definition today :: Time where
  "today = \<lparr>Year = 2025, YearDay = 200\<rparr>"


definition squad_player :: "PlayerID \<Rightarrow> Position \<Rightarrow> Player" where
  "squad_player pid pos = NewPlayer pid pid ''Player'' pos \<lparr>Year = 2000, YearDay = 100\<rparr>"

definition lcg :: "nat math_rand" where
  "lcg = \<lparr>NewSource = (\<lambda>seed. nat \<bar>seed\<bar>),
          Float64 = (\<lambda>g. (real (g mod 10) / 10, (21 * g + 7) mod 1000)),
          Intn = (\<lambda>n g. (int g mod n, (21 * g + 7) mod 1000))\<rparr>"



text \<open>
  A squad of eleven for 4-4-2, its fourth defender being the argument, and two lineups
  that play this defender (the sixth starter) in midfield and the midfielder \<open>m1\<close> in
  defence. In the second lineup the goalkeeper and a forward have swapped places.
\<close>

definition with_passing :: "Player \<Rightarrow> int \<Rightarrow> Player" where
  "with_passing p v = p\<lparr>Attributes := (Attributes p)\<lparr>Passing := v\<rparr>\<rparr>"

definition squad_team :: "Player \<Rightarrow> Team" where
  "squad_team d =
     \<lparr>Players = [squad_player ''g1'' PositionGK,
                 squad_player ''d1'' PositionDEF, squad_player ''d2'' PositionDEF,
                 squad_player ''d3'' PositionDEF, d,
                 squad_player ''m1'' PositionMID, squad_player ''m2'' PositionMID,
                 squad_player ''m3'' PositionMID, squad_player ''m4'' PositionMID,
                 squad_player ''f1'' PositionFWD, squad_player ''f2'' PositionFWD],
      Team.Captain = None, ViceCaptain = None, Team.Formation = Formation442\<rparr>"

definition utility_lineup :: Lineup where
  "utility_lineup =
     \<lparr>Formation = Formation442,
      Starters = [''g1'', ''d1'', ''d2'', ''d3'', ''m1'', ''d4'', ''m2'', ''m3'', ''m4'', ''f1'', ''f2''],
      Positions = [PositionGK, PositionDEF, PositionDEF, PositionDEF, PositionDEF, PositionMID,
                   PositionMID, PositionMID, PositionMID, PositionFWD, PositionFWD],
      Substitutes = [], Captain = ''g1''\<rparr>"

definition swapped_lineup :: Lineup where
  "swapped_lineup =
     utility_lineup\<lparr>Starters :=
       [''f2'', ''d1'', ''d2'', ''d3'', ''m1'', ''d4'', ''m2'', ''m3'', ''m4'', ''f1'', ''g1'']\<rparr>"

text \<open>Eleven available midfielders, playing 4-4-2.\<close>

definition midfield_team :: Team where
  "midfield_team =
     \<lparr>Players = map (\<lambda>pid. squad_player pid PositionMID)
                  [''m1'', ''m2'', ''m3'', ''m4'', ''m5'', ''m6'', ''m7'', ''m8'', ''m9'',
                   ''m10'', ''m11''],
      Team.Captain = None, ViceCaptain = None, Team.Formation = Formation442\<rparr>"


section \<open>The range invariant of the data model\<close>




section \<open>Properties of position eligibility\<close>

text \<open>
  C2. \<open>CanPlayPosition p pos\<close> holds exactly when \<open>pos\<close> is the player's own position, or
  the player is a DEF or a FWD with Passing above 60 and \<open>pos\<close> is MID, or the player is a
  MID and \<open>pos\<close> is DEF, MID or FWD. So a GK plays GK only, a DEF never FWD or GK, a FWD
  never DEF or GK, and a MID never GK.
\<close>

theorem CanPlayPosition_cases:
  "(CanPlayPosition p pos \<longleftrightarrow>
      pos = Position p
      \<or> (Position p = PositionDEF \<and> pos = PositionMID \<and> Passing (Attributes p) > 60)
      \<or> (Position p = PositionFWD \<and> pos = PositionMID \<and> Passing (Attributes p) > 60)
      \<or> (Position p = PositionMID \<and> pos \<in> {PositionDEF, PositionMID, PositionFWD}))
   \<and> (Position p = PositionGK \<longrightarrow> (CanPlayPosition p pos \<longleftrightarrow> pos = PositionGK))
   \<and> (Position p = PositionDEF \<longrightarrow>
        \<not> CanPlayPosition p PositionFWD \<and> \<not> CanPlayPosition p PositionGK)
   \<and> (Position p = PositionFWD \<longrightarrow>
        \<not> CanPlayPosition p PositionDEF \<and> \<not> CanPlayPosition p PositionGK)
   \<and> (Position p = PositionMID \<longrightarrow> \<not> CanPlayPosition p PositionGK)"
  by (auto simp: CanPlayPosition_def)

theorem CanPlayPosition_cases_witness:
  "CanPlayPosition (squad_player ''g1'' PositionGK) PositionGK
   \<and> \<not> CanPlayPosition (squad_player ''g1'' PositionGK) PositionDEF
   \<and> \<not> CanPlayPosition (squad_player ''d1'' PositionDEF) PositionMID
   \<and> \<not> CanPlayPosition (squad_player ''d1'' PositionDEF) PositionFWD
   \<and> \<not> CanPlayPosition (squad_player ''f1'' PositionFWD) PositionDEF
   \<and> \<not> CanPlayPosition (squad_player ''m1'' PositionMID) PositionGK
   \<and> CanPlayPosition (squad_player ''m1'' PositionMID) PositionFWD"
  using CanPlayPosition_cases [of "squad_player ''g1'' PositionGK" PositionGK]
    CanPlayPosition_cases [of "squad_player ''g1'' PositionGK" PositionDEF]
    CanPlayPosition_cases [of "squad_player ''d1'' PositionDEF" PositionMID]
    CanPlayPosition_cases [of "squad_player ''f1'' PositionFWD" PositionMID]
    CanPlayPosition_cases [of "squad_player ''m1'' PositionMID" PositionFWD]
  by (simp add: squad_player_def NewPlayer_def NewDefaultAttributes_def)

section \<open>Properties of the fitness engine\<close>



section \<open>Properties of the development engine\<close>

subsection \<open>What an attribute change preserves\<close>



lemma applyAttributeChange_frame:
  "Fitness (applyAttributeChange p attr c) = Fitness p"
  "Morale (applyAttributeChange p attr c) = Morale p"
  "Form (applyAttributeChange p attr c) = Form p"
  "Position (applyAttributeChange p attr c) = Position p"
  "DateOfBirth (applyAttributeChange p attr c) = DateOfBirth p"
  by (simp_all add: applyAttributeChange_def Let_def)




subsection \<open>Training keeps what every attribute change keeps\<close>

lemma train_attr_keeps:
  assumes "\<And>p a c. Q p \<Longrightarrow> Q (applyAttributeChange p a c)" and "Q (fst (snd s))"
  shows "Q (fst (snd (train_attr R c s attr)))"
  using assms
  by (cases s) (simp add: train_attr_def Let_def split: prod.splits)

lemma foldl_train_attr_keeps:
  assumes "\<And>p a c. Q p \<Longrightarrow> Q (applyAttributeChange p a c)" and "Q (fst (snd s))"
  shows "Q (fst (snd (foldl (train_attr R c) s attrs)))"
  using assms(2)
proof (induction attrs arbitrary: s)
  case Nil
  then show ?case by simp
next
  case (Cons a attrs)
  show ?case
    using Cons.IH [OF train_attr_keeps [of Q, OF assms(1) Cons.prems]] by simp
qed

lemma trainGeneral_loop_keeps:
  assumes "\<And>p a c. Q p \<Longrightarrow> Q (applyAttributeChange p a c)" and "Q (fst (snd s))"
  shows "Q (fst (snd (trainGeneral_loop R chance n s)))"
  using assms(2)
proof (induction n arbitrary: s)
  case 0
  then show ?case by simp
next
  case (Suc n)
  obtain g p ch where s: "s = (g, p, ch)" by (cases s)
  obtain j g1 where d: "Intn R (int (length allAttrs)) g = (j, g1)" by fastforce
  have "Q (fst (snd (train_attr R (chance * 0.5) (g1, p, ch) (allAttrs ! nat j))))"
    using train_attr_keeps [of Q "(g1, p, ch)", OF assms(1)] Suc.prems s by simp
  from Suc.IH [OF this] show ?case
    by (simp add: s d)
qed

lemma trainGeneral_keeps:
  assumes "\<And>p a c. Q p \<Longrightarrow> Q (applyAttributeChange p a c)" and "Q (fst (snd s))"
  shows "Q (fst (snd (trainGeneral R chance s)))"
proof -
  obtain g p ch where s: "s = (g, p, ch)" by (cases s)
  obtain k g1 where d: "Intn R 2 g = (k, g1)" by fastforce
  show ?thesis
    using trainGeneral_loop_keeps [of Q "(g1, p, ch)", OF assms(1)] assms(2)
    by (simp add: trainGeneral_def s d)
qed


text \<open>
  The goalkeeper branch of set-pieces training writes Keeping without
  \<open>applyAttributeChange\<close>: a property kept by it must also be kept by a change of Keeping.
  The branch stays in range because the improvement is at most what is left below 100.
\<close>

lemma trainSetPieces_GK:
  assumes "Position p = PositionGK"
  shows "fst (snd (trainSetPieces R chance (g, p, ch))) =
           (let u = fst (Float64 R g);
                improvement = fst (calculateImprovement R (snd (Float64 R g)) p ''Keeping'')
            in if u < chance \<and> improvement > 0
               then p\<lparr>Attributes := (Attributes p)\<lparr>Keeping := Keeping (Attributes p) + improvement\<rparr>\<rparr>
               else p)"
  using assms by (simp add: trainSetPieces_def Let_def case_prod_beta)

lemma trainSetPieces_keeps:
  assumes "\<And>p a c. Q p \<Longrightarrow> Q (applyAttributeChange p a c)"
    and "\<And>p v. Q p \<Longrightarrow> Q (p\<lparr>Attributes := (Attributes p)\<lparr>Keeping := v\<rparr>\<rparr>)"
    and "Q (fst (snd s))"
  shows "Q (fst (snd (trainSetPieces R chance s)))"
proof (cases s)
  case (fields g p ch)
  show ?thesis
  proof (cases "Position p = PositionGK")
    case True
    show ?thesis
      unfolding fields trainSetPieces_GK [OF True] Let_def
      using assms(2,3) fields by simp
  next
    case False
    then have "trainSetPieces R chance s =
        foldl (train_attr R (chance * 0.7)) s [''Heading'', ''Shooting'']"
      unfolding trainSetPieces_def fields by (simp only: prod.case if_False)
    then show ?thesis
      using foldl_train_attr_keeps [of Q s, OF assms(1) assms(3)] by (simp only:)
  qed
qed


lemma ProcessTraining_player:
  "fst (snd (ProcessTraining R now dm p trainingType intensity)) =
     fst (snd (let c = calculateImprovementChance now p; s = (rand dm, p, Map.empty) in
       if trainingType = TrainingTechnical then trainTechnical R c s
       else if trainingType = TrainingPhysical then trainPhysical R c s
       else if trainingType = TrainingTactical then trainTactical R c s
       else if trainingType = TrainingSetPieces then trainSetPieces R c s
       else trainGeneral R c s))"
  by (simp add: ProcessTraining_def Let_def case_prod_beta)

lemma ProcessTraining_keeps:
  assumes "\<And>p a c. Q p \<Longrightarrow> Q (applyAttributeChange p a c)"
    and "\<And>p v. Q p \<Longrightarrow> Q (p\<lparr>Attributes := (Attributes p)\<lparr>Keeping := v\<rparr>\<rparr>)"
    and "Q p"
  shows "Q (fst (snd (ProcessTraining R now dm p trainingType intensity)))"
proof -
  let ?s = "(rand dm, p, Map.empty)"
  have s: "Q (fst (snd ?s))" using assms(3) by simp
  have a: "Q (fst (snd (foldl (train_attr R c) ?s attrs)))" for c attrs
    by (rule foldl_train_attr_keeps [of Q, OF assms(1) s])
  have b: "Q (fst (snd (trainGeneral R c ?s)))" for c
    by (rule trainGeneral_keeps [of Q, OF assms(1) s])
  have c: "Q (fst (snd (trainSetPieces R c ?s)))" for c
    by (rule trainSetPieces_keeps [of Q, OF assms(1) assms(2) s])
  show ?thesis
    unfolding ProcessTraining_player Let_def trainTechnical_def trainPhysical_def trainTactical_def
    by (simp only: a b c split: if_split) simp
qed


lemma ProcessTraining_result:
  "FitnessChange (snd (snd (ProcessTraining R now dm p trainingType intensity))) = - 5 * intensity"
  "MoraleChange (snd (snd (ProcessTraining R now dm p trainingType intensity))) =
     (if intensity < 0.7 then 2 else if intensity > 0.9 then - 3 else 0)"
  by (simp_all add: ProcessTraining_def Let_def case_prod_beta)

subsection \<open>What training reports and what it leaves alone\<close>

text \<open>
  C4 (amended). \<open>ProcessTraining\<close> returns a result whose \<open>FitnessChange\<close> is
  -5 * intensity and whose \<open>MoraleChange\<close> is +2 below intensity 0.7, -3 above 0.9 and 0
  otherwise. It only reports these changes: the Fitness and the Morale of the player are
  what they were before the call.
\<close>

theorem ProcessTraining_reports_changes:
  "FitnessChange (snd (snd (ProcessTraining R now dm p trainingType intensity))) = - 5 * intensity
   \<and> MoraleChange (snd (snd (ProcessTraining R now dm p trainingType intensity))) =
       (if intensity < 0.7 then 2 else if intensity > 0.9 then - 3 else 0)
   \<and> Fitness (fst (snd (ProcessTraining R now dm p trainingType intensity))) = Fitness p
   \<and> Morale (fst (snd (ProcessTraining R now dm p trainingType intensity))) = Morale p"
proof -
  have "Fitness (fst (snd (ProcessTraining R now dm p trainingType intensity))) = Fitness p
      \<and> Morale (fst (snd (ProcessTraining R now dm p trainingType intensity))) = Morale p"
    by (rule ProcessTraining_keeps [of "\<lambda>q. Fitness q = Fitness p \<and> Morale q = Morale p"])
      (simp_all add: applyAttributeChange_frame)
  then show ?thesis
    by (simp add: ProcessTraining_result)
qed

theorem ProcessTraining_reports_changes_witness:
  "FitnessChange (snd (snd (ProcessTraining lcg today (NewDevelopmentManager lcg)
      (squad_player ''f1'' PositionFWD) TrainingTechnical 0.5))) = - 2.5
   \<and> MoraleChange (snd (snd (ProcessTraining lcg today (NewDevelopmentManager lcg)
      (squad_player ''f1'' PositionFWD) TrainingTechnical 0.5))) = 2
   \<and> Fitness (fst (snd (ProcessTraining lcg today (NewDevelopmentManager lcg)
      (squad_player ''f1'' PositionFWD) TrainingTechnical 0.5))) = 100"
  using ProcessTraining_reports_changes [of lcg today "NewDevelopmentManager lcg"
      "squad_player ''f1'' PositionFWD" TrainingTechnical "0.5"]
  by (simp add: squad_player_def NewPlayer_def)

text \<open>
  The claim as stated fails: a forward with Fitness 100 and Morale 75 trained at intensity
  0.5 should drop to Fitness 97.5 and rise to Morale 77, and keeps 100 and 75.
\<close>

theorem ProcessTraining_fitness_counterexample:
  "Fitness (squad_player ''f1'' PositionFWD) - 5 * 0.5 = 97.5
   \<and> Fitness (fst (snd (ProcessTraining lcg today (NewDevelopmentManager lcg)
        (squad_player ''f1'' PositionFWD) TrainingTechnical 0.5))) = 100
   \<and> Morale (squad_player ''f1'' PositionFWD) + 2 = 77
   \<and> Morale (fst (snd (ProcessTraining lcg today (NewDevelopmentManager lcg)
        (squad_player ''f1'' PositionFWD) TrainingTechnical 0.5))) = 75"
proof -
  have "Fitness (fst (snd (ProcessTraining lcg today (NewDevelopmentManager lcg)
        (squad_player ''f1'' PositionFWD) TrainingTechnical 0.5))) = 100
      \<and> Morale (fst (snd (ProcessTraining lcg today (NewDevelopmentManager lcg)
        (squad_player ''f1'' PositionFWD) TrainingTechnical 0.5))) = 75"
    by (rule ProcessTraining_keeps [of "\<lambda>q. Fitness q = 100 \<and> Morale q = 75"])
      (simp_all add: applyAttributeChange_frame squad_player_def NewPlayer_def)
  then show ?thesis
    by (simp add: squad_player_def NewPlayer_def)
qed

subsection \<open>Natural development stays in range\<close>










section \<open>The range invariant under the mutations\<close>









section \<open>Natural development of young players\<close>











section \<open>Reproducibility of the development engine\<close>







section \<open>Properties of lineup validation\<close>

lemma squad_player_fields:
  "ID (squad_player pid pos) = pid"
  "Position (squad_player pid pos) = pos"
  "IsAvailable (squad_player pid pos)"
  "FullName (squad_player pid pos) = pid @ '' Player''"
  "Attributes (squad_player pid pos) = NewDefaultAttributes pos"
  by (simp_all add: squad_player_def NewPlayer_def IsAvailable_def FullName_def)

lemma with_passing_fields:
  "ID (with_passing p v) = ID p"
  "Position (with_passing p v) = Position p"
  "IsAvailable (with_passing p v) = IsAvailable p"
  "FullName (with_passing p v) = FullName p"
  "Passing (Attributes (with_passing p v)) = v"
  by (simp_all add: with_passing_def IsAvailable_def FullName_def)

text \<open>
  The two loops of the validation: when every starter can play its position the first loop
  counts the assigned positions; otherwise it returns the error of the first starter that
  cannot.
\<close>

lemma starters_available_found:
  assumes "starters_available t xs = None" and "k < length xs"
  shows "\<exists>q. GetPlayer t (xs ! k) = Inr q \<and> IsAvailable q"
  using assms
proof (induction xs arbitrary: k)
  case Nil
  then show ?case by simp
next
  case (Cons x xs)
  then show ?case
    by (cases k) (auto split: sum.splits if_splits)
qed

lemma count_positions_all_eligible:
  assumes "i + length rest \<le> length positions"
    and "\<forall>k < length rest. \<exists>q. GetPlayer t (rest ! k) = Inr q
           \<and> CanPlayPosition q (positions ! (i + k))"
  shows "count_positions t positions i rest positionCount =
           Returns (Inr (\<lambda>pos. positionCount pos
             + int (count_list (take (length rest) (drop i positions)) pos)))"
  using assms
proof (induction rest arbitrary: i positionCount)
  case Nil
  then show ?case by simp
next
  case (Cons x rest)
  from Cons.prems(1) have i: "i < length positions" by simp
  from Cons.prems(2) obtain q where q: "GetPlayer t x = Inr q" "CanPlayPosition q (positions ! i)"
    by fastforce
  have next_ok: "\<forall>k < length rest. \<exists>q. GetPlayer t (rest ! k) = Inr q
           \<and> CanPlayPosition q (positions ! (Suc i + k))"
    using Cons.prems(2) by fastforce
  have len: "Suc i + length rest \<le> length positions"
    using Cons.prems(1) by simp
  have split: "take (Suc (length rest)) (drop i positions) =
      positions ! i # take (length rest) (drop (Suc i) positions)"
    using i by (simp add: Cons_nth_drop_Suc [symmetric])
  show ?case
    using i q by (simp add: Cons.IH [OF len next_ok] split Let_def fun_eq_iff)
qed

lemma count_positions_first_ineligible:
  assumes "i + length rest \<le> length positions" and "k < length rest"
    and "\<forall>m < k. \<exists>q. GetPlayer t (rest ! m) = Inr q \<and> CanPlayPosition q (positions ! (i + m))"
    and "GetPlayer t (rest ! k) = Inr p" and "\<not> CanPlayPosition p (positions ! (i + k))"
  shows "count_positions t positions i rest positionCount =
           Returns (Inl (CannotPlay (FullName p) (positions ! (i + k))))"
  using assms
proof (induction rest arbitrary: i k positionCount)
  case Nil
  then show ?case by simp
next
  case (Cons x rest)
  from Cons.prems(1) have i: "i < length positions" by simp
  show ?case
  proof (cases k)
    case 0
    with Cons.prems i show ?thesis by (simp add: Let_def)
  next
    case (Suc k')
    from Cons.prems(3) Suc obtain q where
      q: "GetPlayer t x = Inr q" "CanPlayPosition q (positions ! i)"
      by fastforce
    have len: "Suc i + length rest \<le> length positions" and k': "k' < length rest"
      using Cons.prems(1,2) Suc by simp_all
    have before: "\<forall>m < k'. \<exists>q. GetPlayer t (rest ! m) = Inr q
        \<and> CanPlayPosition q (positions ! (Suc i + m))"
      using Cons.prems(3) Suc by fastforce
    have at: "GetPlayer t (rest ! k') = Inr p" "\<not> CanPlayPosition p (positions ! (Suc i + k'))"
      using Cons.prems(4,5) Suc by simp_all
    show ?thesis
      using i q Cons.IH [OF len k' before at] Suc by (simp add: Let_def)
  qed
qed

lemma requirements_met_None:
  assumes "\<forall>pos \<in> set ks. positionCount pos = requirement requiredPositions pos"
  shows "requirements_met requiredPositions positionCount ks = None"
  using assms by (induction ks) (simp_all add: Let_def)

lemma count_list_four:
  assumes "distinct [a, b, c, d]"
  shows "count_list xs a + count_list xs b + count_list xs c + count_list xs d \<le> length xs"
  using assms by (induction xs) auto

lemma requirement_total:
  assumes "IsValid f"
  shows "map fst (GetPositionRequirements f) = [PositionGK, PositionDEF, PositionMID, PositionFWD]"
    and "requirement (GetPositionRequirements f) PositionGK
       + requirement (GetPositionRequirements f) PositionDEF
       + requirement (GetPositionRequirements f) PositionMID
       + requirement (GetPositionRequirements f) PositionFWD = 11"
  using assms
  by (auto simp: IsValid_def GetPositionRequirements_def position_counts_def requirement_def)

lemma counts_give_positions:
  assumes "IsValid f" and "range_order (GetPositionRequirements f) ks"
    and "\<forall>pos \<in> set ks. int (count_list xs pos) = requirement (GetPositionRequirements f) pos"
  shows "11 \<le> length xs"
proof -
  have ks: "set ks = {PositionGK, PositionDEF, PositionMID, PositionFWD}"
    using assms(2) requirement_total(1) [OF assms(1)] by (simp add: range_order_def)
  have "int (count_list xs PositionGK) + int (count_list xs PositionDEF)
      + int (count_list xs PositionMID) + int (count_list xs PositionFWD) = 11"
    using assms(3) ks requirement_total(2) [OF assms(1)] by simp
  moreover have "count_list xs PositionGK + count_list xs PositionDEF
      + count_list xs PositionMID + count_list xs PositionFWD \<le> length xs"
    by (rule count_list_four) simp
  ultimately show ?thesis by linarith
qed

text \<open>
  C3 (amended). Take a team and a lineup with exactly 11 starters, all of them in the
  roster and available, a valid formation, and counts of the assigned positions that match
  the requirements of the formation; let a starter of position DEF be assigned to MID, and
  let every other starter be able to play its assigned position. Then \<open>ValidateLineup\<close>
  succeeds if and only if the Passing of that player is above 60, and otherwise it fails
  with the error "player (full name) cannot play MID" that names that player. This holds
  for every order in which the \<open>range\<close> over the requirements visits the positions.
\<close>

theorem DEF_in_midfield_validation:
  assumes "length (Starters l) = 11"
    and "starters_available t (Starters l) = None"
    and "IsValid (Lineup.Formation l)"
    and "range_order (GetPositionRequirements (Lineup.Formation l)) ks"
    and "\<forall>pos \<in> set ks. int (count_list (take (length (Starters l)) (Positions l)) pos)
           = requirement (GetPositionRequirements (Lineup.Formation l)) pos"
    and "i < length (Starters l)" and "GetPlayer t (Starters l ! i) = Inr p"
    and "Position p = PositionDEF" and "Positions l ! i = PositionMID"
    and "\<forall>k < length (Starters l). k \<noteq> i \<longrightarrow>
           (\<exists>q. GetPlayer t (Starters l ! k) = Inr q \<and> CanPlayPosition q (Positions l ! k))"
  shows "(ValidateLineup ks t l = Returns None \<longleftrightarrow> Passing (Attributes p) > 60)
       \<and> (Passing (Attributes p) \<le> 60 \<longrightarrow>
            ValidateLineup ks t l = Returns (Some (CannotPlay (FullName p) PositionMID)))"
proof -
  have "11 \<le> length (take (length (Starters l)) (Positions l))"
    by (rule counts_give_positions [OF assms(3,4,5)])
  then have len: "0 + length (Starters l) \<le> length (Positions l)"
    using assms(1) by simp
  have run: "ValidateLineup ks t l = validateFormationPositions ks t l"
    using assms(1,2,3) by (simp add: ValidateLineup_def)
  have can: "CanPlayPosition p PositionMID \<longleftrightarrow> Passing (Attributes p) > 60"
    using assms(8) by (simp add: CanPlayPosition_def)
  show ?thesis
  proof (cases "Passing (Attributes p) > 60")
    case True
    have "\<forall>k < length (Starters l). \<exists>q. GetPlayer t (Starters l ! k) = Inr q
        \<and> CanPlayPosition q (Positions l ! (0 + k))"
      using assms(7,9,10) can True by (metis add_0)
    from count_positions_all_eligible [OF len this]
    have "validateFormationPositions ks t l = Returns None"
      using assms(5) by (simp add: validateFormationPositions_def requirements_met_None)
    with True run show ?thesis by simp
  next
    case False
    have before: "\<forall>m < i. \<exists>q. GetPlayer t (Starters l ! m) = Inr q
        \<and> CanPlayPosition q (Positions l ! (0 + m))"
      using assms(6,10) by simp
    have "\<not> CanPlayPosition p (Positions l ! (0 + i))"
      using can False assms(9) by simp
    from count_positions_first_ineligible [OF len assms(6) before assms(7) this]
    have "validateFormationPositions ks t l = Returns (Some (CannotPlay (FullName p) PositionMID))"
      using assms(9) by (simp add: validateFormationPositions_def)
    with False run show ?thesis by simp
  qed
qed

lemma squad_team_GetPlayer:
  assumes "ID d = ''d4''"
  shows "GetPlayer (squad_team d) ''g1'' = Inr (squad_player ''g1'' PositionGK)"
    "GetPlayer (squad_team d) ''d1'' = Inr (squad_player ''d1'' PositionDEF)"
    "GetPlayer (squad_team d) ''d2'' = Inr (squad_player ''d2'' PositionDEF)"
    "GetPlayer (squad_team d) ''d3'' = Inr (squad_player ''d3'' PositionDEF)"
    "GetPlayer (squad_team d) ''d4'' = Inr d"
    "GetPlayer (squad_team d) ''m1'' = Inr (squad_player ''m1'' PositionMID)"
    "GetPlayer (squad_team d) ''m2'' = Inr (squad_player ''m2'' PositionMID)"
    "GetPlayer (squad_team d) ''m3'' = Inr (squad_player ''m3'' PositionMID)"
    "GetPlayer (squad_team d) ''m4'' = Inr (squad_player ''m4'' PositionMID)"
    "GetPlayer (squad_team d) ''f1'' = Inr (squad_player ''f1'' PositionFWD)"
    "GetPlayer (squad_team d) ''f2'' = Inr (squad_player ''f2'' PositionFWD)"
  using assms by (simp_all add: GetPlayer_def squad_team_def squad_player_fields)

lemma range_order_442:
  "range_order (GetPositionRequirements Formation442)
     [PositionGK, PositionDEF, PositionMID, PositionFWD]"
  by (simp add: range_order_def GetPositionRequirements_def position_counts_def)

lemma utility_lineup_hypotheses:
  assumes "ID d = ''d4''" and "IsAvailable d"
  shows "length (Starters utility_lineup) = 11"
    and "starters_available (squad_team d) (Starters utility_lineup) = None"
    and "IsValid (Lineup.Formation utility_lineup)"
    and "\<forall>pos \<in> set [PositionGK, PositionDEF, PositionMID, PositionFWD].
           int (count_list (take (length (Starters utility_lineup)) (Positions utility_lineup)) pos)
           = requirement (GetPositionRequirements (Lineup.Formation utility_lineup)) pos"
    and "GetPlayer (squad_team d) (Starters utility_lineup ! 5) = Inr d"
    and "Positions utility_lineup ! 5 = PositionMID"
    and "\<forall>k < length (Starters utility_lineup). k \<noteq> 5 \<longrightarrow>
           (\<exists>q. GetPlayer (squad_team d) (Starters utility_lineup ! k) = Inr q
              \<and> CanPlayPosition q (Positions utility_lineup ! k))"
proof -
  note g = squad_team_GetPlayer [OF assms(1)]
  show "length (Starters utility_lineup) = 11"
    by (simp add: utility_lineup_def)
  show "starters_available (squad_team d) (Starters utility_lineup) = None"
    using assms(2) by (simp add: utility_lineup_def g squad_player_fields)
  show "IsValid (Lineup.Formation utility_lineup)"
    by (simp add: utility_lineup_def IsValid_def)
  show "\<forall>pos \<in> set [PositionGK, PositionDEF, PositionMID, PositionFWD].
           int (count_list (take (length (Starters utility_lineup)) (Positions utility_lineup)) pos)
           = requirement (GetPositionRequirements (Lineup.Formation utility_lineup)) pos"
    by (simp add: utility_lineup_def GetPositionRequirements_def position_counts_def
        requirement_def)
  show "GetPlayer (squad_team d) (Starters utility_lineup ! 5) = Inr d"
    by (simp add: utility_lineup_def g)
  show "Positions utility_lineup ! 5 = PositionMID"
    by (simp add: utility_lineup_def)
  show "\<forall>k < length (Starters utility_lineup). k \<noteq> 5 \<longrightarrow>
           (\<exists>q. GetPlayer (squad_team d) (Starters utility_lineup ! k) = Inr q
              \<and> CanPlayPosition q (Positions utility_lineup ! k))"
    by (simp add: utility_lineup_def eval_nat_numeral All_less_Suc g CanPlayPosition_def
        squad_player_fields)
qed

theorem DEF_in_midfield_validation_witness:
  "length (Starters utility_lineup) = 11
   \<and> starters_available (squad_team (squad_player ''d4'' PositionDEF)) (Starters utility_lineup) = None
   \<and> IsValid (Lineup.Formation utility_lineup)
   \<and> range_order (GetPositionRequirements (Lineup.Formation utility_lineup))
        [PositionGK, PositionDEF, PositionMID, PositionFWD]
   \<and> GetPlayer (squad_team (squad_player ''d4'' PositionDEF)) (Starters utility_lineup ! 5)
        = Inr (squad_player ''d4'' PositionDEF)
   \<and> Position (squad_player ''d4'' PositionDEF) = PositionDEF
   \<and> Positions utility_lineup ! 5 = PositionMID
   \<and> Passing (Attributes (squad_player ''d4'' PositionDEF)) = 55
   \<and> ValidateLineup [PositionGK, PositionDEF, PositionMID, PositionFWD]
        (squad_team (squad_player ''d4'' PositionDEF)) utility_lineup
        = Returns (Some (CannotPlay ''d4 Player'' PositionMID))
   \<and> Passing (Attributes (with_passing (squad_player ''d4'' PositionDEF) 70)) = 70
   \<and> ValidateLineup [PositionGK, PositionDEF, PositionMID, PositionFWD]
        (squad_team (with_passing (squad_player ''d4'' PositionDEF) 70)) utility_lineup
        = Returns None"
proof -
  let ?d = "squad_player ''d4'' PositionDEF"
  let ?e = "with_passing (squad_player ''d4'' PositionDEF) 70"
  let ?ks = "[PositionGK, PositionDEF, PositionMID, PositionFWD]"
  have d: "ID ?d = ''d4''" "IsAvailable ?d" "Position ?d = PositionDEF"
    and e: "ID ?e = ''d4''" "IsAvailable ?e" "Position ?e = PositionDEF"
    by (simp_all add: squad_player_fields with_passing_fields)
  have o: "range_order (GetPositionRequirements (Lineup.Formation utility_lineup)) ?ks"
    using range_order_442 by (simp add: utility_lineup_def)
  have five: "5 < length (Starters utility_lineup)"
    by (simp add: utility_lineup_def)
  note hd = utility_lineup_hypotheses [OF d(1,2)]
  note he = utility_lineup_hypotheses [OF e(1,2)]
  have 1: "Passing (Attributes ?d) = 55" "FullName ?d = ''d4 Player''"
    by (simp_all add: squad_player_fields NewDefaultAttributes_def)
  have 2: "Passing (Attributes ?e) = 70"
    by (simp add: with_passing_fields)
  show ?thesis
    using DEF_in_midfield_validation [OF hd(1,2,3) o hd(4) five hd(5) d(3) hd(6,7)]
      DEF_in_midfield_validation [OF he(1,2,3) o he(4) five he(5) e(3) he(6,7)]
      hd(1,2,3,5,6) o d(3) 1 2
    by simp
qed

text \<open>
  The claim as stated fails: in the second lineup the defender in midfield has Passing 70
  and every condition of the claim holds, and the validation fails all the same, naming
  the forward that is assigned to GK.
\<close>

theorem other_starter_counterexample:
  "length (Starters swapped_lineup) = 11
   \<and> starters_available (squad_team (with_passing (squad_player ''d4'' PositionDEF) 70))
        (Starters swapped_lineup) = None
   \<and> IsValid (Lineup.Formation swapped_lineup)
   \<and> map (\<lambda>pos. int (count_list (take (length (Starters swapped_lineup)) (Positions swapped_lineup)) pos))
        [PositionGK, PositionDEF, PositionMID, PositionFWD]
      = map (requirement (GetPositionRequirements (Lineup.Formation swapped_lineup)))
        [PositionGK, PositionDEF, PositionMID, PositionFWD]
   \<and> GetPlayer (squad_team (with_passing (squad_player ''d4'' PositionDEF) 70))
        (Starters swapped_lineup ! 5) = Inr (with_passing (squad_player ''d4'' PositionDEF) 70)
   \<and> Position (with_passing (squad_player ''d4'' PositionDEF) 70) = PositionDEF
   \<and> Positions swapped_lineup ! 5 = PositionMID
   \<and> Passing (Attributes (with_passing (squad_player ''d4'' PositionDEF) 70)) = 70
   \<and> ValidateLineup [PositionGK, PositionDEF, PositionMID, PositionFWD]
        (squad_team (with_passing (squad_player ''d4'' PositionDEF) 70)) swapped_lineup
        = Returns (Some (CannotPlay ''f2 Player'' PositionGK))"
proof -
  let ?e = "with_passing (squad_player ''d4'' PositionDEF) 70"
  have e: "ID ?e = ''d4''" "IsAvailable ?e" "Position ?e = PositionDEF"
    by (simp_all add: squad_player_fields with_passing_fields)
  note g = squad_team_GetPlayer [OF e(1)]
  show ?thesis
    using e(2,3)
    by (simp add: swapped_lineup_def utility_lineup_def g squad_player_fields
        with_passing_fields IsValid_def GetPositionRequirements_def position_counts_def
        requirement_def ValidateLineup_def validateFormationPositions_def
        CanPlayPosition_def)
qed

subsection \<open>Panics of the validation\<close>

text \<open>
  With an assigned position for every starter the validation returns: the per-starter check
  reads \<open>Positions\<close> within its bounds, and it runs only after the first loop has found
  every starter in the roster.
\<close>

lemma count_positions_returns:
  assumes "i + length rest \<le> length positions"
    and "\<forall>k < length rest. \<exists>q. GetPlayer t (rest ! k) = Inr q"
  shows "\<exists>r. count_positions t positions i rest positionCount = Returns r"
  using assms
proof (induction rest arbitrary: i positionCount)
  case Nil
  then show ?case by simp
next
  case (Cons x rest)
  from Cons.prems(1) have i: "i < length positions" by simp
  from Cons.prems(2) obtain q where q: "GetPlayer t x = Inr q" by fastforce
  have len: "Suc i + length rest \<le> length positions"
    using Cons.prems(1) by simp
  have found: "\<forall>k < length rest. \<exists>q. GetPlayer t (rest ! k) = Inr q"
    using Cons.prems(2) by fastforce
  show ?case
    using i q Cons.IH [OF len found] by (simp add: Let_def)
qed

lemma ValidateLineup_returns:
  assumes "length (Starters l) \<le> length (Positions l)"
  shows "\<exists>r. ValidateLineup ks t l = Returns r"
proof (cases "length (Starters l) = 11 \<and> starters_available t (Starters l) = None
    \<and> IsValid (Lineup.Formation l)")
  case False
  then show ?thesis
    by (auto simp: ValidateLineup_def split: option.splits)
next
  case True
  then have "\<forall>k < length (Starters l). \<exists>q. GetPlayer t (Starters l ! k) = Inr q"
    using starters_available_found by blast
  from count_positions_returns [of 0, OF _ this] assms
  obtain r where "count_positions t (Positions l) 0 (Starters l) (\<lambda>_. 0) = Returns r"
    by auto
  with True show ?thesis
    by (cases r) (simp_all add: ValidateLineup_def validateFormationPositions_def)
qed

text \<open>
  C9. \<open>ValidateLineup\<close> is to return nil or an error for every lineup, also for one
  whose \<open>Positions\<close> is shorter than its \<open>Starters\<close>. The code does not: with eleven
  available starters, a valid formation and no positions, \<open>lineup.Positions[i]\<close> is read
  out of range at the first starter, and the call panics.
\<close>

theorem ValidateLineup_panics:
  "ValidateLineup ks (squad_team (squad_player ''d4'' PositionDEF))
     (utility_lineup\<lparr>Positions := []\<rparr>) = Panics IndexOutOfRange"
  by (simp add: ValidateLineup_def validateFormationPositions_def utility_lineup_def
      squad_team_def GetPlayer_def squad_player_fields IsValid_def)

section \<open>Properties of the best eleven\<close>

lemma foldl_append_concat:
  "foldl (\<lambda>acc x. acc @ f x) a xs = a @ concat (map f xs)"
  by (induction xs arbitrary: a) simp_all

lemma GetBestEleven_concat:
  assumes "11 \<le> length (GetAvailablePlayers t)"
  shows "GetBestEleven ks t =
           concat (map (\<lambda>pos. take (nat (requirement (GetPositionRequirements (Team.Formation t)) pos))
                                 (filter (\<lambda>p. CanPlayPosition p pos) (GetAvailablePlayers t))) ks)"
  using assms by (simp add: GetBestEleven_def Let_def foldl_append_concat)

lemma concat_shared_element:
  assumes "a \<in> set ks" and "b \<in> set ks" and "a \<noteq> b"
    and "x \<in> set (f a)" and "x \<in> set (f b)"
  shows "\<not> distinct (concat (map f ks))"
proof -
  from assms(1) obtain us vs where ks: "ks = us @ a # vs"
    by (auto simp: in_set_conv_decomp)
  with assms(2,3) have "b \<in> set us \<or> b \<in> set vs" by auto
  then have "x \<in> set (concat (map f us)) \<or> x \<in> set (concat (map f vs))"
    using assms(5) by auto
  then show ?thesis
    using assms(4) by (auto simp: ks)
qed

lemma midfield_team_available:
  "GetAvailablePlayers midfield_team = Players midfield_team"
  by (simp add: GetAvailablePlayers_def midfield_team_def squad_player_fields)

text \<open>
  C10. \<open>GetBestEleven\<close> marks no player as used between the positions, so the list it
  returns can hold a player twice: for the team of eleven available midfielders, who can
  play DEF, MID and FWD, the midfielder \<open>m1\<close> is taken for DEF and again for MID, in
  whatever order the \<open>range\<close> over the requirements visits the positions.
\<close>

theorem GetBestEleven_repeats_player:
  "11 \<le> length (GetAvailablePlayers midfield_team)
   \<and> (\<forall>ks. range_order (GetPositionRequirements (Team.Formation midfield_team)) ks \<longrightarrow>
          \<not> distinct (map ID (GetBestEleven ks midfield_team)))"
proof (intro conjI allI impI)
  show len: "11 \<le> length (GetAvailablePlayers midfield_team)"
    by (simp add: midfield_team_available) (simp add: midfield_team_def)
  fix ks
  assume "range_order (GetPositionRequirements (Team.Formation midfield_team)) ks"
  then have ks: "PositionDEF \<in> set ks" "PositionMID \<in> set ks"
    by (simp_all add: range_order_def midfield_team_def GetPositionRequirements_def
        position_counts_def)
  let ?f = "\<lambda>pos. map ID (take (nat (requirement (GetPositionRequirements (Team.Formation midfield_team)) pos))
      (filter (\<lambda>p. CanPlayPosition p pos) (GetAvailablePlayers midfield_team)))"
  have "''m1'' \<in> set (?f PositionDEF)" "''m1'' \<in> set (?f PositionMID)"
    unfolding midfield_team_available
    by (simp_all add: midfield_team_def GetPositionRequirements_def position_counts_def
        requirement_def CanPlayPosition_def squad_player_fields)
  from concat_shared_element [of PositionDEF ks PositionMID "''m1''" ?f, OF ks _ this]
  have "\<not> distinct (concat (map ?f ks))" by simp
  then show "\<not> distinct (map ID (GetBestEleven ks midfield_team))"
    by (simp add: GetBestEleven_concat [OF len] map_concat comp_def)
qed

theorem GetBestEleven_repeats_player_witness:
  "range_order (GetPositionRequirements (Team.Formation midfield_team))
     [PositionGK, PositionDEF, PositionMID, PositionFWD]
   \<and> 11 \<le> length (GetAvailablePlayers midfield_team)
   \<and> \<not> distinct (map ID (GetBestEleven [PositionGK, PositionDEF, PositionMID, PositionFWD] midfield_team))"
proof -
  have o: "range_order (GetPositionRequirements (Team.Formation midfield_team))
     [PositionGK, PositionDEF, PositionMID, PositionFWD]"
    using range_order_442 by (simp add: midfield_team_def)
  show ?thesis
    using GetBestEleven_repeats_player o by blast
qed



section \<open>Properties of the lineup recommendation\<close>


























end
